theory Spec2Isabelle
  imports Complex_Main "HOL-Library.AList"
begin

section \<open>Python strings\<close>

text \<open>
  A Python \<open>str\<close> is a sequence of Unicode code points, and \<open>len\<close> counts code points.
  Strings are therefore lists of code points (natural numbers); \<open>str\<close> embeds an ASCII
  literal.
\<close>

type_synonym pystr = "nat list"

definition str :: "string \<Rightarrow> pystr" where
  "str s = map of_char s"

text \<open>
  \<open>str.lower()\<close>. On ASCII it maps \<open>A\<close>..\<open>Z\<close> to \<open>a\<close>..\<open>z\<close> and leaves every other
  character alone. The lower-case mapping of the code points from 128 on is the Unicode
  table of the Python runtime, which is no part of the repository: it is the parameter
  \<open>lc\<close>, giving for each such code point the code points of its lower-case form.
\<close>

definition ascii_lower :: "nat \<Rightarrow> nat" where
  "ascii_lower c = (if 65 \<le> c \<and> c \<le> 90 then c + 32 else c)"

definition lower :: "(nat \<Rightarrow> nat list) \<Rightarrow> pystr \<Rightarrow> pystr" where
  "lower lc s = concat (map (\<lambda>c. if c < 128 then [ascii_lower c] else lc c) s)"

text \<open>
  A sample of that table: U+0130 (capital I with dot above) lower-cases to the two code
  points U+0069 U+0307, as Unicode's special casing has it; it is the only code point
  whose lower-case form is longer than one code point. The sample leaves the other
  code points unchanged.
\<close>

definition lower_table :: "nat \<Rightarrow> nat list" where
  "lower_table c = (if c = 304 then [105, 775] else [c])"

text \<open>\<open>str.isspace\<close> on one code point, and \<open>str.strip()\<close> with no argument.\<close>

definition isspace :: "nat \<Rightarrow> bool" where
  "isspace c \<longleftrightarrow> (9 \<le> c \<and> c \<le> 13) \<or> (28 \<le> c \<and> c \<le> 32) \<or> c = 133 \<or> c = 160
     \<or> c = 5760 \<or> (8192 \<le> c \<and> c \<le> 8202) \<or> c = 8232 \<or> c = 8233 \<or> c = 8239
     \<or> c = 8287 \<or> c = 12288"

definition strip :: "pystr \<Rightarrow> pystr" where
  "strip s = rev (dropWhile isspace (rev (dropWhile isspace s)))"

text \<open>\<open>s.startswith(p)\<close> and the substring test \<open>sub in s\<close>.\<close>

fun startswith :: "pystr \<Rightarrow> pystr \<Rightarrow> bool" where
  "startswith s [] = True"
| "startswith [] (p # ps) = False"
| "startswith (c # cs) (p # ps) = (c = p \<and> startswith cs ps)"

fun contains :: "pystr \<Rightarrow> pystr \<Rightarrow> bool" where
  "contains [] sub = (sub = [])"
| "contains (c # cs) sub = (startswith (c # cs) sub \<or> contains cs sub)"


section \<open>existing/response\_generator.py: the keyword classifier\<close>

definition hardware_keywords :: "pystr list" where
  "hardware_keywords = map str
     [''device'', ''computer'', ''laptop'', ''desktop'', ''slow'', ''broken'',
      ''screen'', ''keyboard'', ''mouse'', ''printer'', ''hardware'', ''wifi'',
      ''network'', ''internet'', ''connection'', ''battery'', ''power'', ''crash'',
      ''frozen'', ''blue screen'', ''bsod'', ''restart'', ''boot'', ''monitor'',
      ''display'', ''black screen'', ''webcam'', ''camera'', ''microphone'', ''audio'',
      ''sound'', ''speaker'', ''usb'', ''drive'', ''disk'', ''storage'']"

definition password_keywords :: "pystr list" where
  "password_keywords = map str
     [''password'', ''login'', ''forgot'', ''reset'', ''locked'', ''account'',
      ''access'', ''credentials'', ''can't log in'', ''authentication'',
      ''username'', ''locked out'', ''security'', ''signin'', ''sign in'',
      ''log in'', ''cannot access'', ''password expired'', ''change password'',
      ''identity'', ''verification'', ''two-factor'', ''2fa'', ''mfa'']"

definition software_keywords :: "pystr list" where
  "software_keywords = map str
     [''software'', ''application'', ''app'', ''program'', ''install'',
      ''update'', ''upgrade'', ''microsoft'', ''office'', ''excel'', ''word'',
      ''outlook'', ''email'', ''browser'', ''chrome'', ''edge'', ''firefox'',
      ''safari'', ''teams'', ''slack'', ''zoom'', ''license'', ''activation'',
      ''windows'', ''macos'', ''os'', ''operating system'', ''error message'']"

definition greeting_messages :: "pystr list" where
  "greeting_messages =
     map str [''hi'', ''hello'', ''hey'', ''hi there'', ''hello there'', ''greetings'']"

text \<open>
  The three counting loops
  \<^verbatim>\<open>for word in keywords: if word.lower() in message_lower: count += 1\<close>.
\<close>

fun count_keywords :: "(nat \<Rightarrow> nat list) \<Rightarrow> pystr list \<Rightarrow> pystr \<Rightarrow> nat" where
  "count_keywords lc [] message_lower = 0"
| "count_keywords lc (word # rest) message_lower =
     (if contains message_lower (lower lc word) then 1 else 0)
       + count_keywords lc rest message_lower"

definition hardware_count :: "(nat \<Rightarrow> nat list) \<Rightarrow> pystr \<Rightarrow> nat" where
  "hardware_count lc message = count_keywords lc hardware_keywords (lower lc message)"

definition software_count :: "(nat \<Rightarrow> nat list) \<Rightarrow> pystr \<Rightarrow> nat" where
  "software_count lc message = count_keywords lc software_keywords (lower lc message)"

text \<open>
  \<open>password_matches\<close> is the value of \<open>password_count\<close> after its loop.
  \<^verbatim>\<open>password_count *= 1.2\<close> turns the count into a float. The count is at most 24, and
  for those counts the double \<open>n * 1.2\<close> compares with every integer as the exact product
  does (it is the integer itself when \<open>n\<close> is a multiple of 5, and at least 0.2 away from
  every integer otherwise), so the weighted count is the exact real number.
\<close>

definition password_matches :: "(nat \<Rightarrow> nat list) \<Rightarrow> pystr \<Rightarrow> nat" where
  "password_matches lc message = count_keywords lc password_keywords (lower lc message)"

definition password_count :: "(nat \<Rightarrow> nat list) \<Rightarrow> pystr \<Rightarrow> real" where
  "password_count lc message = real (password_matches lc message) * 1.2"

text \<open>The guard of the first \<open>if\<close>: the message is too short or is a bare greeting.\<close>

definition too_short_or_greeting :: "(nat \<Rightarrow> nat list) \<Rightarrow> pystr \<Rightarrow> bool" where
  "too_short_or_greeting lc message \<longleftrightarrow>
     length (strip message) < 10 \<or> lower lc message \<in> set greeting_messages"

definition classify_issue :: "(nat \<Rightarrow> nat list) \<Rightarrow> pystr \<Rightarrow> pystr" where
  "classify_issue lc message =
     (if too_short_or_greeting lc message then str ''General''
      else if password_count lc message > real (hardware_count lc message)
              \<and> password_count lc message > real (software_count lc message)
        then str ''Password''
      else if real (software_count lc message) > real (hardware_count lc message)
              \<and> real (software_count lc message) > password_count lc message
        then str ''Software''
      else if hardware_count lc message > 0 then str ''Hardware''
      else str ''General'')"


section \<open>enhanced/neo4j\_itsm\_manager.py: the classifier that reports a confidence\<close>

definition itsm_hardware_keywords :: "pystr list" where
  "itsm_hardware_keywords = map str
     [''laptop'', ''desktop'', ''printer'', ''device'', ''hardware'', ''keyboard'',
      ''mouse'', ''monitor'', ''screen'', ''battery'', ''power'', ''usb'', ''disk'']"

definition itsm_software_keywords :: "pystr list" where
  "itsm_software_keywords = map str
     [''software'', ''application'', ''program'', ''app'', ''windows'', ''office'',
      ''excel'', ''word'', ''outlook'', ''browser'', ''update'', ''install'',
      ''license'', ''version'', ''freeze'', ''crash'']"

definition itsm_network_keywords :: "pystr list" where
  "itsm_network_keywords = map str
     [''network'', ''wifi'', ''internet'', ''connection'', ''lan'', ''vpn'',
      ''ethernet'', ''dns'', ''ip'', ''wireless'', ''connect'', ''access point'']"

definition itsm_security_keywords :: "pystr list" where
  "itsm_security_keywords = map str
     [''password'', ''login'', ''security'', ''authentication'', ''access'',
      ''account'', ''credentials'', ''reset'', ''locked'', ''mfa'', ''permission'']"

text \<open>\<^verbatim>\<open>[kw for kw in keywords if kw in issue_lower]\<close>; the counts are the lengths.\<close>

definition matching :: "pystr list \<Rightarrow> pystr \<Rightarrow> pystr list" where
  "matching keywords issue_lower = filter (\<lambda>kw. contains issue_lower kw) keywords"

definition hw_count :: "(nat \<Rightarrow> nat list) \<Rightarrow> pystr \<Rightarrow> nat" where
  "hw_count lc d = length (matching itsm_hardware_keywords (lower lc d))"

definition sw_count :: "(nat \<Rightarrow> nat list) \<Rightarrow> pystr \<Rightarrow> nat" where
  "sw_count lc d = length (matching itsm_software_keywords (lower lc d))"

definition net_count :: "(nat \<Rightarrow> nat list) \<Rightarrow> pystr \<Rightarrow> nat" where
  "net_count lc d = length (matching itsm_network_keywords (lower lc d))"

definition sec_count :: "(nat \<Rightarrow> nat list) \<Rightarrow> pystr \<Rightarrow> nat" where
  "sec_count lc d = length (matching itsm_security_keywords (lower lc d))"

record classification =
  category :: pystr
  agent_category :: pystr
  primary_keywords :: "pystr list"
  confidence :: real

definition get_issue_classification :: "(nat \<Rightarrow> nat list) \<Rightarrow> pystr \<Rightarrow> classification" where
  "get_issue_classification lc issue_description =
     (let issue_lower = lower lc issue_description;
          hw = hw_count lc issue_description;
          sw = sw_count lc issue_description;
          net = net_count lc issue_description;
          sec = sec_count lc issue_description;
          (cat, kws) =
            (if sec > max hw (max sw net)
               then (str ''Password'', matching itsm_security_keywords issue_lower)
             else if hw > max sw (max net sec)
               then (str ''Hardware'', matching itsm_hardware_keywords issue_lower)
             else if sw > max hw (max net sec)
               then (str ''Software'', matching itsm_software_keywords issue_lower)
             else if net > max hw (max sw sec)
               then (str ''Network'', matching itsm_network_keywords issue_lower)
             else (str ''General'', []))
      in \<lparr> category = cat,
           agent_category = (if cat = str ''Network'' then str ''Hardware'' else cat),
           primary_keywords = kws,
           confidence = real (max hw (max sw (max net sec))) / 5 \<rparr>)"


section \<open>Exceptions and dictionaries\<close>

datatype exception = KeyError | IndexError | CollaboratorError

type_synonym dict = "(pystr \<times> pystr) list"

text \<open>
  A JSON object with string values is an association list in insertion order;
  \<open>d.update(other)\<close> overwrites the keys present and appends the new ones. \<open>del d[k]\<close>
  on a mapping raises \<open>KeyError\<close> for a missing key.
\<close>

definition dict_update :: "('k \<times> 'v) list \<Rightarrow> ('k \<times> 'v) list \<Rightarrow> ('k \<times> 'v) list" where
  "dict_update d other = fold (\<lambda>(k, v). AList.update k v) other d"

definition dict_del :: "('k \<rightharpoonup> 'v) \<Rightarrow> 'k \<Rightarrow> exception + ('k \<rightharpoonup> 'v)" where
  "dict_del d k = (case d k of None \<Rightarrow> Inl KeyError | Some v \<Rightarrow> Inr (d(k := None)))"

text \<open>Truth value of an attribute that is \<open>None\<close> or a string.\<close>

definition truthy :: "pystr option \<Rightarrow> bool" where
  "truthy v \<longleftrightarrow> (case v of None \<Rightarrow> False | Some s \<Rightarrow> s \<noteq> [])"

section \<open>existing/session\_manager.py\<close>

text \<open>
  The attributes of \<open>Session\<close>, with the two that \<open>process_message\<close> adds by assignment:
  \<open>greeted\<close> and \<open>language\<close> are \<open>None\<close> while the object has no such attribute. The
  identifier from \<open>uuid.uuid4()\<close> and the clock reading are arguments of the constructor.
\<close>

record session =
  session_id :: pystr
  customer_number :: "pystr option"
  customer_email :: "pystr option"
  employee_id :: "pystr option"
  agent_id :: "pystr option"
  employee_info :: "dict option"
  devices :: "dict list"
  conversation_id :: pystr
  messages :: "(pystr \<times> pystr) list"
  channel_status :: "(pystr \<times> bool) list"
  issue_type :: "pystr option"
  created_at :: pystr
  last_updated :: pystr
  call_data :: dict
  asked_about_devices :: bool
  selected_device :: "pystr option"
  initial_greeting :: "pystr option"
  greeted :: "bool option"
  language :: "pystr option"

definition Session :: "pystr \<Rightarrow> pystr \<Rightarrow> pystr \<Rightarrow> session" where
  "Session uuid now sid =
     \<lparr> session_id = sid, customer_number = None, customer_email = None, employee_id = None,
       agent_id = None, employee_info = None, devices = [], conversation_id = uuid,
       messages = [], channel_status = [(str ''telephony'', False), (str ''chat'', False)],
       issue_type = None, created_at = now, last_updated = now, call_data = [],
       asked_about_devices = False, selected_device = None, initial_greeting = None,
       greeted = None, language = None \<rparr>"

record session_manager =
  sessions :: "pystr \<rightharpoonup> session"

definition SessionManager :: session_manager where
  "SessionManager = \<lparr> sessions = Map.empty \<rparr>"

definition get_session :: "pystr \<Rightarrow> pystr \<Rightarrow> session_manager \<Rightarrow> pystr \<Rightarrow> session \<times> session_manager" where
  "get_session uuid now sm sid =
     (case sessions sm sid of
        None \<Rightarrow> (Session uuid now sid, sm\<lparr>sessions := (sessions sm)(sid \<mapsto> Session uuid now sid)\<rparr>)
      | Some s \<Rightarrow> (s, sm))"

definition save_session :: "session_manager \<Rightarrow> session \<Rightarrow> session_manager" where
  "save_session sm s = sm\<lparr>sessions := (sessions sm)(session_id s \<mapsto> s)\<rparr>"

definition end_session :: "session_manager \<Rightarrow> pystr \<Rightarrow> exception + session_manager" where
  "end_session sm sid =
     (if sessions sm sid \<noteq> None
      then (case dict_del (sessions sm) sid of
              Inl e \<Rightarrow> Inl e
            | Inr d \<Rightarrow> Inr (sm\<lparr>sessions := d\<rparr>))
      else Inr sm)"


section \<open>memory/session\_memory.py\<close>

text \<open>
  The chat history behind \<open>self.memory\<close> is an object of the LangChain library. It is the
  list \<open>memory\<close> of (type, content) pairs; a call into the library either returns or
  raises, which is the argument \<open>call\<close> of the methods that make one. Each method catches
  every exception of its body.
\<close>

record session_data =
  sd_created_at :: pystr
  sd_last_updated :: pystr
  user_info :: dict
  device_info :: "dict list"
  issue_data :: dict
  metadata :: dict

record session_memory =
  mem_session_id :: pystr
  memory_type :: pystr
  window_size :: nat
  persistence :: "pystr option"
  session_data :: session_data
  memory :: "(pystr \<times> pystr) list"

definition SessionMemory :: "pystr \<Rightarrow> pystr \<Rightarrow> pystr \<Rightarrow> nat \<Rightarrow> pystr option \<Rightarrow> session_memory" where
  "SessionMemory now sid mtype wsize pers =
     \<lparr> mem_session_id = sid, memory_type = mtype, window_size = wsize, persistence = pers,
       session_data = \<lparr> sd_created_at = now, sd_last_updated = now, user_info = [],
                        device_info = [], issue_data = [], metadata = [] \<rparr>,
       memory = [] \<rparr>"


definition add_user_message ::
  "pystr \<Rightarrow> exception + unit \<Rightarrow> pystr \<Rightarrow> session_memory \<Rightarrow> session_memory" where
  "add_user_message now call message m =
     (case call of
        Inr u \<Rightarrow> m\<lparr>memory := memory m @ [(str ''human'', message)],
                  session_data := (session_data m)\<lparr>sd_last_updated := now\<rparr>\<rparr>
      | Inl e \<Rightarrow> m)"

definition add_ai_message ::
  "pystr \<Rightarrow> exception + unit \<Rightarrow> pystr \<Rightarrow> session_memory \<Rightarrow> session_memory" where
  "add_ai_message now call message m =
     (case call of
        Inr u \<Rightarrow> m\<lparr>memory := memory m @ [(str ''ai'', message)],
                  session_data := (session_data m)\<lparr>sd_last_updated := now\<rparr>\<rparr>
      | Inl e \<Rightarrow> m)"

record context_data =
  ctx_user_info :: "dict option"
  ctx_device_info :: "(dict list + dict) option"
  ctx_issue_data :: "dict option"
  ctx_metadata :: "dict option"

definition add_system_context :: "pystr \<Rightarrow> context_data \<Rightarrow> session_memory \<Rightarrow> session_memory" where
  "add_system_context now c m =
     (let d = session_data m;
          d = (case ctx_user_info c of None \<Rightarrow> d
               | Some u \<Rightarrow> d\<lparr>user_info := dict_update (user_info d) u\<rparr>);
          d = (case ctx_device_info c of None \<Rightarrow> d
               | Some (Inl l) \<Rightarrow> d\<lparr>device_info := l\<rparr>
               | Some (Inr x) \<Rightarrow> d\<lparr>device_info := device_info d @ [x]\<rparr>);
          d = (case ctx_issue_data c of None \<Rightarrow> d
               | Some i \<Rightarrow> d\<lparr>issue_data := dict_update (issue_data d) i\<rparr>);
          d = (case ctx_metadata c of None \<Rightarrow> d
               | Some x \<Rightarrow> d\<lparr>metadata := dict_update (metadata d) x\<rparr>)
      in m\<lparr>session_data := d\<lparr>sd_last_updated := now\<rparr>\<rparr>)"


section \<open>More string operations\<close>

text \<open>
  \<open>s.split()[0]\<close>: the first word of \<open>s\<close>, and \<open>IndexError\<close> when \<open>s\<close> has no word.
\<close>

definition first_word :: "pystr \<Rightarrow> exception + pystr" where
  "first_word s =
     (let r = dropWhile isspace s
      in if r = [] then Inl IndexError else Inr (takeWhile (\<lambda>c. \<not> isspace c) r))"

text \<open>
  The text before the first occurrence of a non-empty separator (all of \<open>s\<close> when there is
  none) and the text after it: \<open>s.split(sep)[0]\<close> is \<open>before_first s sep\<close>, and
  \<open>s.split(sep)[1]\<close> is \<open>before_first (after_first s sep) sep\<close> when \<open>sep\<close> occurs in \<open>s\<close>.
\<close>

fun before_first :: "pystr \<Rightarrow> pystr \<Rightarrow> pystr" where
  "before_first [] sep = []"
| "before_first (c # cs) sep =
     (if startswith (c # cs) sep then [] else c # before_first cs sep)"

fun after_first :: "pystr \<Rightarrow> pystr \<Rightarrow> pystr" where
  "after_first [] sep = []"
| "after_first (c # cs) sep =
     (if startswith (c # cs) sep then drop (length sep) (c # cs) else after_first cs sep)"

definition dict_get :: "dict \<Rightarrow> pystr \<Rightarrow> pystr option" where
  "dict_get d k = map_of d k"

section \<open>Collaborators\<close>

text \<open>
  What the world outside the orchestrator answers during one call: the clock, a fresh
  UUID, and for every call into a collaborator (the employee database, the LangChain
  chains and executors, the chat history, the conversation log) either its result or the
  exception it raises. Within one call every reading of the clock gives \<open>now\<close>. The
  functions of \<open>existing/db_service.py\<close> catch their own exceptions; the model lets them
  raise all the same, so that what is proved does not rest on it.
\<close>

record world =
  uuid4 :: pystr
  now :: pystr
  hour :: nat
  find_employee_by_email :: "exception + dict option"
  find_employee_by_phone :: "exception + dict option"
  get_employee_devices :: "exception + dict list"
  find_agent_by_specialization :: "exception + dict option"
  log_conversation_to_db :: "exception + unit"
  chat_add_user_message :: "exception + unit"
  chat_add_ai_message :: "exception + unit"
  get_prompt :: "exception + unit"
  conversation_chain_init :: "exception + unit"
  chat_add_message :: "exception + unit"
  chain_run :: "exception + pystr"
  issue_chain_run :: "exception + pystr"
  classifier_chain_run :: "exception + pystr"
  agent_executor_run :: "exception + pystr"

section \<open>existing/response\_generator.py: fallback replies and greetings\<close>

text \<open>
  \<open>generate_fallback_response\<close> in two parts: \<open>fallback_greeting\<close> is its first \<open>if\<close>,
  where \<open>name.split()[0]\<close> raises \<open>IndexError\<close> for a name without a word, and
  \<open>fallback_text\<close> is the text chosen after it. The session argument may be \<open>None\<close>.
\<close>

definition has_employee_info :: "session option \<Rightarrow> bool" where
  "has_employee_info so \<longleftrightarrow>
     (case so of None \<Rightarrow> False
      | Some s \<Rightarrow> (case employee_info s of None \<Rightarrow> False | Some d \<Rightarrow> d \<noteq> []))"

definition employee_field :: "session option \<Rightarrow> pystr \<Rightarrow> pystr option" where
  "employee_field so k =
     (case so of None \<Rightarrow> None
      | Some s \<Rightarrow> (case employee_info s of None \<Rightarrow> None | Some d \<Rightarrow> dict_get d k))"

definition any_in :: "pystr list \<Rightarrow> pystr \<Rightarrow> bool" where
  "any_in words message_lower = list_ex (\<lambda>word. contains message_lower word) words"

definition fallback_greeting :: "session option \<Rightarrow> exception + pystr" where
  "fallback_greeting so =
     (if has_employee_info so \<and> truthy (employee_field so (str ''name''))
      then (case employee_field so (str ''name'') of
              None \<Rightarrow> Inr (str ''Hello, '')
            | Some name \<Rightarrow>
                (case first_word name of
                   Inl e \<Rightarrow> Inl e
                 | Inr first_name \<Rightarrow> Inr (str ''Hi '' @ first_name @ str '', '')))
      else Inr (str ''Hello, ''))"

definition fallback_text ::
  "(nat \<Rightarrow> nat list) \<Rightarrow> pystr \<Rightarrow> pystr option \<Rightarrow> pystr option \<Rightarrow> pystr" where
  "fallback_text lc user_message itype error_type =
     (let message_lower = lower lc user_message in
      if error_type = Some (str ''timeout'') then
        str ''I apologize for the delay. Our system is experiencing some momentary slowness. Could you please provide some additional details about your issue so I can assist you better once our systems are back to normal speed?''
      else if message_lower \<in> set greeting_messages then
        str ''I'm ME.ai Assistant, your IT support specialist. How can I help you today?''
      else if itype = Some (str ''Password'') then
        (if contains message_lower (str ''reset'') \<or> contains message_lower (str ''forgot'') then
           str ''I understand you need to reset your password. I'd be happy to help with that. For security reasons, I'll need to verify your identity first. Could you please confirm your department and employee ID?''
         else if contains message_lower (str ''locked'') \<or> contains message_lower (str ''locked out'') then
           str ''I see that your account is locked. This typically happens after multiple incorrect password attempts. Let me help you regain access. First, could you tell me which system or application you're trying to access?''
         else
           str ''I understand you're having an issue with authentication or accessing your account. To help you better, could you specify which system or application you're having trouble accessing?'')
      else if itype = Some (str ''Hardware'') then
        (if any_in (map str [''slow'', ''performance'', ''freezing'', ''frozen'']) message_lower then
           str ''I'm sorry to hear your device is running slowly. This could be due to several factors such as low disk space, too many applications running, or outdated software. Could you tell me which operating system you're using, and approximately when you started noticing the issue?''
         else if any_in (map str [''printer'', ''print'', ''scanning'']) message_lower then
           str ''I understand you're having an issue with a printer. Let me help troubleshoot that. First, could you tell me the model of the printer, and whether it's connected via network or USB?''
         else if any_in (map str [''wifi'', ''internet'', ''connection'', ''network'']) message_lower then
           str ''I see you're experiencing network connectivity issues. Let's try to resolve this. Are you having trouble connecting to the WiFi, or is your device connected but you can't access specific websites or services?''
         else
           str ''Thank you for reaching out about your hardware issue. To help me troubleshoot effectively, could you tell me which specific device you're having problems with, and what symptoms you're experiencing?'')
      else if itype = Some (str ''Software'') then
        (if any_in (map str [''install'', ''download'', ''setup'']) message_lower then
           str ''I understand you need help installing software. To assist you better, could you tell me which application you're trying to install, and what error or issue you're encountering during the installation process?''
         else if any_in (map str [''update'', ''upgrade'', ''patch'']) message_lower then
           str ''I see you're having issues with a software update. These can sometimes be tricky. Could you let me know which program needs updating, and what happens when you try to update it?''
         else if any_in (map str [''office'', ''excel'', ''word'', ''powerpoint'', ''outlook'']) message_lower then
           str ''I understand you're experiencing an issue with Microsoft Office. To help you more effectively, could you specify which Office application is giving you trouble, and describe what happens when the problem occurs?''
         else
           str ''I understand you're having a software issue. To help me troubleshoot effectively, could you tell me which specific application you're having problems with, and what error messages or unexpected behaviors you're seeing?'')
      else
        str ''Thank you for reaching out to IT support. I'd like to help with your issue, but I need a bit more information. Could you provide more details about what you're experiencing so I can better assist you?'')"

definition generate_fallback_response ::
  "(nat \<Rightarrow> nat list) \<Rightarrow> pystr \<Rightarrow> session option \<Rightarrow> pystr option \<Rightarrow> pystr option
     \<Rightarrow> exception + pystr" where
  "generate_fallback_response lc user_message so itype error_type =
     (case fallback_greeting so of
        Inl e \<Rightarrow> Inl e
      | Inr greeting \<Rightarrow> Inr (greeting @ fallback_text lc user_message itype error_type))"

definition time_greeting :: "nat \<Rightarrow> pystr" where
  "time_greeting current_hour =
     (if 5 \<le> current_hour \<and> current_hour < 12 then str ''Good morning''
      else if 12 \<le> current_hour \<and> current_hour < 18 then str ''Good afternoon''
      else str ''Good evening'')"

definition generate_initial_greeting :: "nat \<Rightarrow> session \<Rightarrow> exception + pystr" where
  "generate_initial_greeting current_hour s =
     (if has_employee_info (Some s) then
        (case first_word (case employee_field (Some s) (str ''name'') of
                            None \<Rightarrow> [] | Some n \<Rightarrow> n) of
           Inl e \<Rightarrow> Inl e
         | Inr employee_name \<Rightarrow>
             (let department = (case employee_field (Some s) (str ''department'') of
                                  None \<Rightarrow> [] | Some d \<Rightarrow> d);
                  greeting = time_greeting current_hour @ str '', '' @ employee_name
                    @ str ''! I'm ME.ai Assistant, your IT support specialist.'';
                  greeting = (if department \<noteq> []
                              then greeting @ str '' I see you're from the '' @ department
                                     @ str '' department.''
                              else greeting)
              in Inr (greeting @ str '' How can I help you with your IT needs today?'')))
      else Inr (time_greeting current_hour
                  @ str ''! I'm ME.ai Assistant, your IT support specialist. How can I help you today?''))"

section \<open>chains/conversation.py and chains/workflow.py\<close>

definition apology_try_again :: pystr where
  "apology_try_again = str ''I apologize, but I'm experiencing technical difficulties. Please try again or contact our IT team directly if your issue is urgent.''"

text \<open>
  \<open>MEConversationChain.process\<close> on a chain whose memory is still empty: the employee
  context, when there is one, is added to the chat history, then the chain runs. Every
  exception of the body gives the apology.
\<close>

definition conversation_process :: "world \<Rightarrow> dict \<Rightarrow> pystr" where
  "conversation_process w info =
     (case (if info \<noteq> [] then chat_add_message w else Inr ()) of
        Inl e \<Rightarrow> apology_try_again
      | Inr u \<Rightarrow> (case chain_run w of
                    Inl e \<Rightarrow> apology_try_again
                  | Inr response \<Rightarrow> response))"

text \<open>
  \<open>WorkflowChain.classify_issue_detailed\<close>, the \<open>category\<close> entry of its result:
  \<^verbatim>\<open>result.split("CATEGORY:")[1].split("\n")[0].strip()\<close>, and \<open>Unknown\<close> when the marker is
  missing or the chain raises.
\<close>

definition classify_issue_detailed :: "world \<Rightarrow> pystr" where
  "classify_issue_detailed w =
     (case issue_chain_run w of
        Inl e \<Rightarrow> str ''Unknown''
      | Inr result \<Rightarrow>
          (if contains result (str ''CATEGORY:'')
           then strip (before_first
                         (before_first (after_first result (str ''CATEGORY:'')) (str ''CATEGORY:''))
                         [10])
           else str ''Unknown''))"

section \<open>agent/base\_agent.py\<close>

text \<open>
  \<open>MeAIBaseAgent.process\<close>: both branches of its \<open>if\<close> build or take an executor and run
  it; what the executor answers is \<open>agent_executor_run\<close>. On any exception the agent
  answers with \<open>generate_fallback_response\<close>, called inside the handler.
\<close>

definition agent_process ::
  "(nat \<Rightarrow> nat list) \<Rightarrow> world \<Rightarrow> pystr \<Rightarrow> pystr \<Rightarrow> session option \<Rightarrow> exception + pystr" where
  "agent_process lc w agent_type user_input so =
     (case agent_executor_run w of
        Inr response \<Rightarrow> Inr response
      | Inl e \<Rightarrow> generate_fallback_response lc user_input so (Some agent_type) None)"

text \<open>The keys of \<open>self.agents\<close> and the agent chosen for an issue type.\<close>

definition agents :: "pystr list" where
  "agents = map str [''Hardware'', ''Software'', ''Password'']"

definition default_agent :: pystr where
  "default_agent = str ''Hardware''"

definition select_agent :: "pystr \<Rightarrow> pystr" where
  "select_agent itype = (if itype \<in> set agents then itype else default_agent)"

section \<open>me\_agent\_orchestrator.py\<close>

record orchestrator =
  session_manager :: session_manager
  session_memories :: "pystr \<rightharpoonup> session_memory"

definition MEAgentOrchestrator :: orchestrator where
  "MEAgentOrchestrator = \<lparr> session_manager = SessionManager, session_memories = Map.empty \<rparr>"

definition get_or_create_memory ::
  "world \<Rightarrow> (pystr \<rightharpoonup> session_memory) \<Rightarrow> pystr \<Rightarrow> (pystr \<rightharpoonup> session_memory)" where
  "get_or_create_memory w mems sid =
     (case mems sid of
        None \<Rightarrow> mems(sid \<mapsto> SessionMemory (now w) sid (str ''buffer'') 10 None)
      | Some m \<Rightarrow> mems)"

text \<open>A method call on the memory object of a session, which the mapping holds.\<close>

definition on_memory ::
  "(pystr \<rightharpoonup> session_memory) \<Rightarrow> pystr \<Rightarrow> (session_memory \<Rightarrow> session_memory)
     \<Rightarrow> (pystr \<rightharpoonup> session_memory)" where
  "on_memory mems sid f = (case mems sid of None \<Rightarrow> mems | Some m \<Rightarrow> mems(sid \<mapsto> f m))"

definition classify_issue_type :: "world \<Rightarrow> pystr \<Rightarrow> pystr" where
  "classify_issue_type w query =
     (let category = classify_issue_detailed w in
      if contains category (str ''Hardware'') \<or> contains category (str ''Device'')
        then str ''Hardware''
      else if contains category (str ''Software'') \<or> contains category (str ''Application'')
        then str ''Software''
      else if contains category (str ''Password'') \<or> contains category (str ''Access'')
              \<or> contains category (str ''Account'')
        then str ''Password''
      else str ''General'')"

text \<open>
  \<open>process_query\<close>. The state is the session object and the mapping of the memories; an
  exception leaves it as it was when the exception was raised. \<open>process_query_try\<close> is
  the body of the \<open>try\<close>, in three parts: classification, the agent identifier, and the
  reply.
\<close>

definition needs_classification :: "session \<Rightarrow> bool" where
  "needs_classification s \<longleftrightarrow> \<not> truthy (issue_type s) \<or> issue_type s = Some (str ''General'')"

definition classify_step ::
  "world \<Rightarrow> pystr \<Rightarrow> session \<times> (pystr \<rightharpoonup> session_memory)
     \<Rightarrow> (session \<times> (pystr \<rightharpoonup> session_memory)) \<times> pystr" where
  "classify_step w query st =
     (case st of (s, mems) \<Rightarrow>
        (if needs_classification s then
           (let itype = classify_issue_type w query
            in ((s\<lparr>issue_type := Some itype\<rparr>,
                 on_memory mems (session_id s)
                   (add_system_context (now w)
                      \<lparr> ctx_user_info = None, ctx_device_info = None,
                        ctx_issue_data = Some [(str ''type'', itype), (str ''classified_at'', now w)],
                        ctx_metadata = None \<rparr>)),
                itype))
         else ((s, mems), (case issue_type s of None \<Rightarrow> [] | Some itype \<Rightarrow> itype))))"

definition assign_agent_id :: "world \<Rightarrow> session \<Rightarrow> exception + session" where
  "assign_agent_id w s =
     (if \<not> truthy (agent_id s) then
        (case find_agent_by_specialization w of
           Inl e \<Rightarrow> Inl e
         | Inr None \<Rightarrow> Inr s
         | Inr (Some agent_info) \<Rightarrow>
             (if agent_info \<noteq> [] then Inr (s\<lparr>agent_id := dict_get agent_info (str ''agent_id'')\<rparr>)
              else Inr s))
      else Inr s)"

definition process_query_try ::
  "(nat \<Rightarrow> nat list) \<Rightarrow> world \<Rightarrow> pystr \<Rightarrow> session \<times> (pystr \<rightharpoonup> session_memory)
     \<Rightarrow> (session \<times> (pystr \<rightharpoonup> session_memory)) \<times> (exception + pystr)" where
  "process_query_try lc w query st =
     (case st of (s, mems) \<Rightarrow>
        (let mems = get_or_create_memory w mems (session_id s);
             mems = on_memory mems (session_id s)
                      (add_user_message (now w) (chat_add_user_message w) query)
         in case classify_step w query (s, mems) of ((s, mems), itype) \<Rightarrow>
              (case assign_agent_id w s of
                 Inl e \<Rightarrow> ((s, mems), Inl e)
               | Inr s \<Rightarrow>
                   (case agent_process lc w (select_agent itype) query (Some s) of
                      Inl e \<Rightarrow> ((s, mems), Inl e)
                    | Inr response \<Rightarrow>
                        (let mems = on_memory mems (session_id s)
                                      (add_ai_message (now w) (chat_add_ai_message w) response);
                             logged = (if truthy (employee_id s) \<and> truthy (agent_id s)
                                       then (case log_conversation_to_db w of
                                               Inl e \<Rightarrow> () | Inr u \<Rightarrow> ())
                                       else ())
                         in ((s, mems), Inr response))))))"

definition process_query ::
  "(nat \<Rightarrow> nat list) \<Rightarrow> world \<Rightarrow> pystr \<Rightarrow> session \<times> (pystr \<rightharpoonup> session_memory)
     \<Rightarrow> (session \<times> (pystr \<rightharpoonup> session_memory)) \<times> (exception + pystr)" where
  "process_query lc w query st =
     (case process_query_try lc w query st of
        (st', Inr response) \<Rightarrow> (st', Inr response)
      | ((s, mems), Inl e) \<Rightarrow> ((s, mems), generate_fallback_response lc query (Some s) None None))"

text \<open>
  \<open>get_initial_greeting\<close>. \<open>identify_employee\<close> is the first \<open>if\<close> of the body of its
  \<open>try\<close> (the employee lookup), \<open>greeting_for\<close> the second (the greeting itself).
\<close>

definition nonempty_dict :: "dict option \<Rightarrow> bool" where
  "nonempty_dict d \<longleftrightarrow> (case d of None \<Rightarrow> False | Some x \<Rightarrow> x \<noteq> [])"

definition lookup_employee :: "world \<Rightarrow> session \<Rightarrow> exception + dict option" where
  "lookup_employee w s =
     (case (if truthy (customer_email s) then find_employee_by_email w else Inr None) of
        Inl e \<Rightarrow> Inl e
      | Inr employee \<Rightarrow>
          (if \<not> nonempty_dict employee \<and> truthy (customer_number s)
           then find_employee_by_phone w else Inr employee))"

definition identify_employee ::
  "world \<Rightarrow> session \<times> (pystr \<rightharpoonup> session_memory)
     \<Rightarrow> (session \<times> (pystr \<rightharpoonup> session_memory)) \<times> (exception + unit)" where
  "identify_employee w st =
     (case st of (s, mems) \<Rightarrow>
        (if \<not> truthy (employee_id s) \<and> (truthy (customer_email s) \<or> truthy (customer_number s))
         then
           (case lookup_employee w s of
              Inl e \<Rightarrow> ((s, mems), Inl e)
            | Inr None \<Rightarrow> ((s, mems), Inr ())
            | Inr (Some employee) \<Rightarrow>
                (if employee = [] then ((s, mems), Inr ())
                 else
                   (let s = s\<lparr>employee_id := dict_get employee (str ''employee_id''),
                              employee_info := Some employee\<rparr>
                    in case get_employee_devices w of
                         Inl e \<Rightarrow> ((s, mems), Inl e)
                       | Inr devs \<Rightarrow>
                           (let s = s\<lparr>devices := devs\<rparr>;
                                mems = get_or_create_memory w mems (session_id s);
                                mems = on_memory mems (session_id s)
                                  (add_system_context (now w)
                                     \<lparr> ctx_user_info = Some employee,
                                       ctx_device_info = Some (Inl devs),
                                       ctx_issue_data = None, ctx_metadata = None \<rparr>)
                            in ((s, mems), Inr ())))))
         else ((s, mems), Inr ())))"

definition greeting_for :: "world \<Rightarrow> session \<Rightarrow> exception + pystr" where
  "greeting_for w s =
     (if has_employee_info (Some s) then
        (case first_word (case employee_field (Some s) (str ''name'') of
                            None \<Rightarrow> [] | Some n \<Rightarrow> n) of
           Inl e \<Rightarrow> Inl e
         | Inr employee_name \<Rightarrow>
             (let department = (case employee_field (Some s) (str ''department'') of
                                  None \<Rightarrow> str ''Unknown Department'' | Some d \<Rightarrow> d)
              in case get_prompt w of
                   Inl e \<Rightarrow> Inl e
                 | Inr p \<Rightarrow>
                     (case conversation_chain_init w of
                        Inl e \<Rightarrow> Inl e
                      | Inr c \<Rightarrow>
                          Inr (conversation_process w
                                 [(str ''name'', employee_name),
                                  (str ''department'', department)]))))
      else generate_initial_greeting (hour w) s)"

definition simple_greeting :: pystr where
  "simple_greeting = str ''Hello! I'm ME.ai Assistant, your IT support specialist. How can I help you today?''"

definition get_initial_greeting ::
  "world \<Rightarrow> session \<times> (pystr \<rightharpoonup> session_memory)
     \<Rightarrow> (session \<times> (pystr \<rightharpoonup> session_memory)) \<times> (exception + pystr)" where
  "get_initial_greeting w st =
     (case identify_employee w st of
        (st', Inl e) \<Rightarrow> (st', Inr simple_greeting)
      | ((s, mems), Inr u) \<Rightarrow>
          (case greeting_for w s of
             Inl e \<Rightarrow> ((s, mems), Inr simple_greeting)
           | Inr greeting \<Rightarrow> ((s, mems), Inr greeting)))"

text \<open>
  \<open>process_message\<close>. The session object is the one the session manager holds, so what
  the call does to it is done to the manager's entry, also when an exception ends the
  call early: \<open>put_session\<close> writes the object back under the identifier it was fetched
  with.
\<close>

definition technical_difficulties :: pystr where
  "technical_difficulties = str ''I apologize, but I'm experiencing technical difficulties. Please try again later or contact our IT support team directly if your issue is urgent.''"

definition greeting_phrases :: "pystr list" where
  "greeting_phrases =
     map str [''hello'', ''hi'', ''hey'', ''good morning'', ''good afternoon'', ''good evening'']"

definition greeting_due :: "(nat \<Rightarrow> nat list) \<Rightarrow> session \<Rightarrow> pystr \<Rightarrow> bool" where
  "greeting_due lc s message \<longleftrightarrow>
     greeted s \<noteq> Some True \<and> any_in greeting_phrases (lower lc message)"

definition put_session :: "session_manager \<Rightarrow> pystr \<Rightarrow> session \<Rightarrow> session_manager" where
  "put_session sm sid s = sm\<lparr>sessions := (sessions sm)(sid \<mapsto> s)\<rparr>"

definition apply_hints ::
  "session \<Rightarrow> pystr option \<Rightarrow> pystr option \<Rightarrow> pystr option \<Rightarrow> session" where
  "apply_hints s user_email user_phone lang =
     (let s = (if truthy user_email then s\<lparr>customer_email := user_email\<rparr> else s);
          s = (if truthy user_phone then s\<lparr>customer_number := user_phone\<rparr> else s)
      in if truthy lang \<and> language s = None then s\<lparr>language := lang\<rparr> else s)"

definition process_message_try ::
  "(nat \<Rightarrow> nat list) \<Rightarrow> world \<Rightarrow> pystr \<Rightarrow> pystr \<Rightarrow> pystr option \<Rightarrow> pystr option
     \<Rightarrow> pystr option \<Rightarrow> orchestrator \<Rightarrow> orchestrator \<times> (exception + pystr)" where
  "process_message_try lc w message sid user_email user_phone lang orch =
     (case get_session (uuid4 w) (now w) (session_manager orch) sid of (s, sm) \<Rightarrow>
        (let s = apply_hints s user_email user_phone lang in
         if greeting_due lc s message then
           (case get_initial_greeting w (s, session_memories orch) of
              ((s, mems), Inl e) \<Rightarrow>
                (\<lparr> session_manager = put_session sm sid s, session_memories = mems \<rparr>, Inl e)
            | ((s, mems), Inr greeting) \<Rightarrow>
                (let s = s\<lparr>greeted := Some True\<rparr>;
                     s = s\<lparr>messages := messages s @ [(str ''user'', message)]\<rparr>;
                     s = s\<lparr>messages := messages s @ [(str ''assistant'', greeting)]\<rparr>
                 in (\<lparr> session_manager = save_session (put_session sm sid s) s,
                       session_memories = mems \<rparr>, Inr greeting)))
         else
           (let s = s\<lparr>messages := messages s @ [(str ''user'', message)]\<rparr>
            in case process_query lc w message (s, session_memories orch) of
                 ((s, mems), Inl e) \<Rightarrow>
                   (\<lparr> session_manager = put_session sm sid s, session_memories = mems \<rparr>, Inl e)
               | ((s, mems), Inr response) \<Rightarrow>
                   (let s = s\<lparr>messages := messages s @ [(str ''assistant'', response)]\<rparr>
                    in (\<lparr> session_manager = save_session (put_session sm sid s) s,
                          session_memories = mems \<rparr>, Inr response)))))"

definition process_message ::
  "(nat \<Rightarrow> nat list) \<Rightarrow> world \<Rightarrow> pystr \<Rightarrow> pystr \<Rightarrow> pystr option \<Rightarrow> pystr option
     \<Rightarrow> pystr option \<Rightarrow> orchestrator \<Rightarrow> orchestrator \<times> (exception + pystr)" where
  "process_message lc w message sid user_email user_phone lang orch =
     (case process_message_try lc w message sid user_email user_phone lang orch of
        (orch', Inl e) \<Rightarrow> (orch', Inr technical_difficulties)
      | (orch', Inr reply) \<Rightarrow> (orch', Inr reply))"

section \<open>agent/orchestrator.py\<close>

definition ao_classify_issue_type :: "(nat \<Rightarrow> nat list) \<Rightarrow> world \<Rightarrow> pystr \<Rightarrow> pystr" where
  "ao_classify_issue_type lc w query =
     (let itype = classify_issue lc query in
      if itype = str ''General'' then
        (case classifier_chain_run w of
           Inl e \<Rightarrow> str ''General''
         | Inr response \<Rightarrow>
             (let response = strip response in
              if contains response (str ''Hardware'') then str ''Hardware''
              else if contains response (str ''Software'') then str ''Software''
              else if contains response (str ''Password'') then str ''Password''
              else str ''General''))
      else itype)"

definition ao_process_query ::
  "(nat \<Rightarrow> nat list) \<Rightarrow> world \<Rightarrow> pystr \<Rightarrow> session option
     \<Rightarrow> session option \<times> (exception + pystr)" where
  "ao_process_query lc w query so =
     (let (so, itype) =
            (case so of
               None \<Rightarrow> (None, ao_classify_issue_type lc w query)
             | Some s \<Rightarrow>
                 (if \<not> truthy (issue_type s)
                  then (let itype = ao_classify_issue_type lc w query
                        in (Some (s\<lparr>issue_type := Some itype\<rparr>), itype))
                  else (Some s, (case issue_type s of None \<Rightarrow> [] | Some itype \<Rightarrow> itype))))
      in case agent_process lc w (select_agent itype) query so of
           Inr response \<Rightarrow> (so, Inr response)
         | Inl e \<Rightarrow> (so, generate_fallback_response lc query so None None))"


section \<open>Sequences of calls\<close>

text \<open>
  An issue type is specific when it is set and is not General. In every store the
  session manager builds, a session sits under its own identifier (\<open>wf_sessions\<close>).
  \<open>fetched\<close> is the session object \<open>process_message\<close> works on. A \<open>call\<close> is one
  \<open>process_message\<close> call with what the collaborators answer during it; \<open>run\<close> makes the
  calls of a list in order, \<open>takes_greeting_path\<close> is the condition of the greeting
  branch as a call evaluates it, and \<open>greeting_turns\<close> counts the calls of one session that
  take this branch.
\<close>

definition specific :: "pystr option \<Rightarrow> bool" where
  "specific t \<longleftrightarrow> truthy t \<and> t \<noteq> Some (str ''General'')"

definition wf_sessions :: "orchestrator \<Rightarrow> bool" where
  "wf_sessions orch \<longleftrightarrow>
     (\<forall>k s. sessions (session_manager orch) k = Some s \<longrightarrow> session_id s = k)"

definition fetched :: "world \<Rightarrow> orchestrator \<Rightarrow> pystr \<Rightarrow> session" where
  "fetched w orch sid = fst (get_session (uuid4 w) (now w) (session_manager orch) sid)"

record call =
  call_world :: world
  call_message :: pystr
  call_session_id :: pystr
  call_email :: "pystr option"
  call_phone :: "pystr option"
  call_language :: "pystr option"

definition process_call ::
  "(nat \<Rightarrow> nat list) \<Rightarrow> call \<Rightarrow> orchestrator \<Rightarrow> orchestrator \<times> (exception + pystr)" where
  "process_call lc c orch =
     process_message lc (call_world c) (call_message c) (call_session_id c)
       (call_email c) (call_phone c) (call_language c) orch"

fun run :: "(nat \<Rightarrow> nat list) \<Rightarrow> call list \<Rightarrow> orchestrator \<Rightarrow> orchestrator" where
  "run lc [] orch = orch"
| "run lc (c # cs) orch = run lc cs (fst (process_call lc c orch))"

definition takes_greeting_path :: "(nat \<Rightarrow> nat list) \<Rightarrow> call \<Rightarrow> orchestrator \<Rightarrow> bool" where
  "takes_greeting_path lc c orch \<longleftrightarrow>
     greeting_due lc
       (apply_hints (fetched (call_world c) orch (call_session_id c))
          (call_email c) (call_phone c) (call_language c))
       (call_message c)"


definition greeted_in :: "orchestrator \<Rightarrow> pystr \<Rightarrow> bool" where
  "greeted_in orch sid \<longleftrightarrow>
     (case sessions (session_manager orch) sid of
        None \<Rightarrow> False | Some s \<Rightarrow> greeted s = Some True)"

definition issue_type_of :: "orchestrator \<Rightarrow> pystr \<Rightarrow> pystr option" where
  "issue_type_of orch sid =
     (case sessions (session_manager orch) sid of None \<Rightarrow> None | Some s \<Rightarrow> issue_type s)"


text \<open>
  The replies of the two language-model calls whose text reaches the user: when such a
  call returns, what it returns is not the empty string.
\<close>

definition replies_nonempty :: "world \<Rightarrow> bool" where
  "replies_nonempty w \<longleftrightarrow>
     (case chain_run w of Inl e \<Rightarrow> True | Inr r \<Rightarrow> r \<noteq> [])
     \<and> (case agent_executor_run w of Inl e \<Rightarrow> True | Inr r \<Rightarrow> r \<noteq> [])"


section \<open>Sample messages\<close>

definition locked_message :: pystr where
  "locked_message = str ''my password is locked and I forgot my login''"

definition tie_message :: pystr where
  "tie_message =
     str ''password login forgot reset locked laptop desktop screen keyboard mouse printer''"

definition laptop_app_message :: pystr where
  "laptop_app_message = str ''my laptop app''"

definition six_hardware_message :: pystr where
  "six_hardware_message = str ''laptop desktop printer device hardware keyboard''"

definition hi_message :: pystr where
  "hi_message = str ''hi''"

definition hello_message :: pystr where
  "hello_message = str ''Hello There''"

definition wifi_message :: pystr where
  "wifi_message = str ''wifi down''"




text \<open>Sample states.\<close>

definition two_sessions :: session_manager where
  "two_sessions =
     save_session (save_session SessionManager (Session (str ''u1'') (str ''t0'') (str ''alice'')))
       (Session (str ''u2'') (str ''t0'') (str ''bob''))"



text \<open>Sample collaborators and calls.\<close>

definition quiet_world :: world where
  "quiet_world =
     \<lparr> uuid4 = str ''0b9d7c1e'', now = str ''2025-04-17T09:00:00'', hour = 9,
       find_employee_by_email = Inr None, find_employee_by_phone = Inr None,
       get_employee_devices = Inr [], find_agent_by_specialization = Inr None,
       log_conversation_to_db = Inr (), chat_add_user_message = Inr (),
       chat_add_ai_message = Inr (), get_prompt = Inr (), conversation_chain_init = Inr (),
       chat_add_message = Inr (), chain_run = Inr (str ''Good morning!''),
       issue_chain_run = Inr (str ''CATEGORY: Hardware'' @ [10] @ str ''SUBCATEGORY: Laptop''),
       classifier_chain_run = Inr (str ''Hardware''),
       agent_executor_run = Inr (str ''Which laptop is it?'') \<rparr>"

definition password_world :: world where
  "password_world = quiet_world\<lparr>issue_chain_run := Inr (str ''CATEGORY: Password/Access'')\<rparr>"

definition empty_reply_world :: world where
  "empty_reply_world = quiet_world\<lparr>agent_executor_run := Inr []\<rparr>"

definition failing_world :: world where
  "failing_world =
     \<lparr> uuid4 = str ''0b9d7c1e'', now = str ''2025-04-17T09:00:00'', hour = 9,
       find_employee_by_email = Inl CollaboratorError,
       find_employee_by_phone = Inl CollaboratorError,
       get_employee_devices = Inl CollaboratorError,
       find_agent_by_specialization = Inl CollaboratorError,
       log_conversation_to_db = Inl CollaboratorError,
       chat_add_user_message = Inl CollaboratorError,
       chat_add_ai_message = Inl CollaboratorError, get_prompt = Inl CollaboratorError,
       conversation_chain_init = Inl CollaboratorError,
       chat_add_message = Inl CollaboratorError, chain_run = Inl CollaboratorError,
       issue_chain_run = Inl CollaboratorError, classifier_chain_run = Inl CollaboratorError,
       agent_executor_run = Inl CollaboratorError \<rparr>"

definition slow_laptop :: pystr where
  "slow_laptop = str ''my laptop is slow''"

definition s1 :: pystr where
  "s1 = str ''s1''"

definition call_of :: "world \<Rightarrow> string \<Rightarrow> call" where
  "call_of w text =
     \<lparr> call_world = w, call_message = str text, call_session_id = s1,
       call_email = None, call_phone = None, call_language = None \<rparr>"

definition hello_call :: call where
  "hello_call = call_of quiet_world ''Hello''"

definition hi_again_call :: call where
  "hi_again_call = call_of quiet_world ''hi again''"

definition laptop_call :: call where
  "laptop_call = call_of quiet_world ''my laptop is slow''"

definition password_call :: call where
  "password_call = call_of password_world ''I forgot my password''"


section \<open>Facts about strings\<close>

lemma str_eq_iff [simp]: "str a = str b \<longleftrightarrow> a = b"
  by (simp add: str_def inj_map_eq_map inj_def)

lemma str_Nil_iff [simp]: "str a = [] \<longleftrightarrow> a = []"
  by (simp add: str_def)








lemma count_keywords_le: "count_keywords lc kws s \<le> length kws"
  by (induction kws) simp_all


section \<open>The keyword classifier\<close>

lemma classify_issue_scored:
  "\<not> too_short_or_greeting lc m \<Longrightarrow>
   classify_issue lc m =
     (if password_count lc m > real (hardware_count lc m)
           \<and> password_count lc m > real (software_count lc m) then str ''Password''
      else if real (software_count lc m) > real (hardware_count lc m)
           \<and> real (software_count lc m) > password_count lc m then str ''Software''
      else if hardware_count lc m > 0 then str ''Hardware''
      else str ''General'')"
  by (simp add: classify_issue_def)

lemma password_count_nonneg: "0 \<le> password_count lc m"
  by (simp add: password_count_def)


lemmas eval_defs =
  hardware_count_def software_count_def password_count_def password_matches_def
  too_short_or_greeting_def hardware_keywords_def software_keywords_def
  password_keywords_def greeting_messages_def
  str_def lower_def ascii_lower_def strip_def isspace_def lower_table_def

lemma locked_counts:
  "password_count lc locked_message = 4.8"
  "hardware_count lc locked_message = 0"
  "software_count lc locked_message = 1"
  "\<not> too_short_or_greeting lc locked_message"
  by (simp_all add: eval_defs locked_message_def)

lemma tie_counts:
  "password_count lc tie_message = 6"
  "hardware_count lc tie_message = 6"
  "software_count lc tie_message = 1"
  "\<not> too_short_or_greeting lc tie_message"
  by (simp_all add: eval_defs tie_message_def)

lemma laptop_app_counts:
  "password_count lc laptop_app_message = 0"
  "hardware_count lc laptop_app_message = 1"
  "software_count lc laptop_app_message = 1"
  "\<not> too_short_or_greeting lc laptop_app_message"
  by (simp_all add: eval_defs laptop_app_message_def)



lemma hello_guard:
  "lower lc hello_message \<in> set greeting_messages"
  by (simp add: eval_defs hello_message_def)

lemma wifi_guard: "length (strip wifi_message) < 10"
  by (simp add: eval_defs wifi_message_def)

lemma raw_tie_weighted_ahead:
  "0 < password_matches lc m \<Longrightarrow> n \<le> password_matches lc m \<Longrightarrow> real n < password_count lc m"
  by (simp add: password_count_def)

text \<open>
  C3 (as the code has it). Behind the guard, \<open>classify_issue\<close> returns Password exactly
  when the weighted Password count (the number of matches times 1.2) is strictly greater
  than both the Hardware count and the Software count. The weight makes a positive number
  of Password matches win whenever it ties with or exceeds both other numbers of matches.
  A weighted count that only equals the larger of the other two does not win.
\<close>

theorem classify_issue_password_strictly_ahead:
  "\<not> too_short_or_greeting lc m \<Longrightarrow>
   (classify_issue lc m = str ''Password'' \<longleftrightarrow>
      password_count lc m > real (hardware_count lc m)
      \<and> password_count lc m > real (software_count lc m))
   \<and> (0 < password_matches lc m \<and> hardware_count lc m \<le> password_matches lc m
        \<and> software_count lc m \<le> password_matches lc m
       \<longrightarrow> classify_issue lc m = str ''Password'')"
  using raw_tie_weighted_ahead [of lc m "hardware_count lc m"]
        raw_tie_weighted_ahead [of lc m "software_count lc m"]
  by (simp add: classify_issue_scored)

theorem classify_issue_password_strictly_ahead_witness:
  "\<not> too_short_or_greeting lower_table locked_message
   \<and> password_count lower_table locked_message
        > real (hardware_count lower_table locked_message)
   \<and> password_count lower_table locked_message
        > real (software_count lower_table locked_message)
   \<and> classify_issue lower_table locked_message = str ''Password''"
  using classify_issue_password_strictly_ahead [of lower_table locked_message]
  by (simp add: locked_counts)

text \<open>
  Five Password matches weigh 6.0 and tie with six Hardware matches: the message passes
  the guard, the weighted Password count is greater than or equal to both other counts,
  and the result is Hardware.
\<close>

theorem password_weighted_tie_counterexample:
  "\<not> too_short_or_greeting lower_table tie_message
   \<and> password_count lower_table tie_message \<ge> real (hardware_count lower_table tie_message)
   \<and> password_count lower_table tie_message \<ge> real (software_count lower_table tie_message)
   \<and> classify_issue lower_table tie_message = str ''Hardware''
   \<and> classify_issue lower_table tie_message \<noteq> str ''Password''"
  by (simp add: classify_issue_scored tie_counts)

text \<open>
  C4 (as the code has it). Behind the guard: Password is returned exactly when its weighted
  count is strictly greater than both other counts, and Software exactly when its count is
  strictly greater than both others. When neither holds, Hardware is returned as soon as
  its count is positive, also on a tie and when another count is greater. General is
  returned exactly when the Hardware count is zero and the Software count equals the
  weighted Password count, which includes the case of all counts zero.
\<close>

theorem classify_issue_winner:
  "\<not> too_short_or_greeting lc m \<Longrightarrow>
   (classify_issue lc m = str ''Password'' \<longleftrightarrow>
      password_count lc m > real (hardware_count lc m)
      \<and> password_count lc m > real (software_count lc m))
   \<and> (classify_issue lc m = str ''Software'' \<longleftrightarrow>
      real (software_count lc m) > real (hardware_count lc m)
      \<and> real (software_count lc m) > password_count lc m)
   \<and> (classify_issue lc m = str ''Hardware'' \<longleftrightarrow>
      hardware_count lc m > 0
      \<and> \<not> (password_count lc m > real (hardware_count lc m)
            \<and> password_count lc m > real (software_count lc m))
      \<and> \<not> (real (software_count lc m) > real (hardware_count lc m)
            \<and> real (software_count lc m) > password_count lc m))
   \<and> (classify_issue lc m = str ''General'' \<longleftrightarrow>
      hardware_count lc m = 0 \<and> real (software_count lc m) = password_count lc m)"
  using password_count_nonneg [of lc m]
  by (auto simp add: classify_issue_scored)

theorem classify_issue_winner_witness:
  "\<not> too_short_or_greeting lower_table locked_message
   \<and> classify_issue lower_table locked_message = str ''Password''
   \<and> classify_issue lower_table locked_message \<noteq> str ''Hardware''"
  using classify_issue_winner [of lower_table locked_message]
  by (simp add: locked_counts)

text \<open>
  One Hardware match and one Software match: Hardware is returned although its count is
  not greater than the Software count.
\<close>

theorem hardware_on_tie_counterexample:
  "\<not> too_short_or_greeting lower_table laptop_app_message
   \<and> classify_issue lower_table laptop_app_message = str ''Hardware''
   \<and> \<not> real (hardware_count lower_table laptop_app_message)
          > real (software_count lower_table laptop_app_message)"
  by (simp add: classify_issue_scored laptop_app_counts)


section \<open>The classifier of the ontology manager\<close>

lemmas itsm_eval_defs =
  hw_count_def sw_count_def net_count_def sec_count_def matching_def
  itsm_hardware_keywords_def itsm_software_keywords_def itsm_network_keywords_def
  itsm_security_keywords_def str_def lower_def ascii_lower_def

lemma itsm_hi_counts:
  "hw_count lc hi_message = 0" "sw_count lc hi_message = 0"
  "net_count lc hi_message = 0" "sec_count lc hi_message = 0"
  by (simp_all add: itsm_eval_defs hi_message_def)

lemma itsm_wifi_counts:
  "hw_count lc wifi_message = 0" "sw_count lc wifi_message = 0"
  "net_count lc wifi_message = 1" "sec_count lc wifi_message = 0"
  by (simp_all add: itsm_eval_defs wifi_message_def)

lemma itsm_six_counts:
  "hw_count lc six_hardware_message = 6" "sw_count lc six_hardware_message = 0"
  "net_count lc six_hardware_message = 0" "sec_count lc six_hardware_message = 0"
  by (simp_all add: itsm_eval_defs six_hardware_message_def)

lemma confidence_eq:
  "confidence (get_issue_classification lc d) =
     real (max (hw_count lc d) (max (sw_count lc d) (max (net_count lc d) (sec_count lc d)))) / 5"
  by (simp add: get_issue_classification_def Let_def split: prod.splits)

lemma category_eq:
  "category (get_issue_classification lc d) =
     (if sec_count lc d > max (hw_count lc d) (max (sw_count lc d) (net_count lc d))
        then str ''Password''
      else if hw_count lc d > max (sw_count lc d) (max (net_count lc d) (sec_count lc d))
        then str ''Hardware''
      else if sw_count lc d > max (hw_count lc d) (max (net_count lc d) (sec_count lc d))
        then str ''Software''
      else if net_count lc d > max (hw_count lc d) (max (sw_count lc d) (sec_count lc d))
        then str ''Network''
      else str ''General'')"
  by (simp add: get_issue_classification_def Let_def split: prod.splits)

lemma matching_le: "length (matching kws s) \<le> length kws"
  by (simp add: matching_def)

lemma itsm_count_bounds:
  "hw_count lc d \<le> 13" "sw_count lc d \<le> 16" "net_count lc d \<le> 12" "sec_count lc d \<le> 11"
  using matching_le [of itsm_hardware_keywords "lower lc d"]
        matching_le [of itsm_software_keywords "lower lc d"]
        matching_le [of itsm_network_keywords "lower lc d"]
        matching_le [of itsm_security_keywords "lower lc d"]
  by (simp_all add: hw_count_def sw_count_def net_count_def sec_count_def
        itsm_hardware_keywords_def itsm_software_keywords_def itsm_network_keywords_def
        itsm_security_keywords_def)

text \<open>
  C6 (as the code has it). The confidence of \<open>get_issue_classification\<close> is the greatest
  of the four keyword counts divided by 5. It is not clamped: it lies between 0 and 16/5
  (no keyword list has more than 16 entries), and it is at most 1 exactly when no category
  has more than 5 matches.
\<close>

theorem confidence_unclamped:
  "confidence (get_issue_classification lc d) =
     real (max (hw_count lc d) (max (sw_count lc d) (max (net_count lc d) (sec_count lc d)))) / 5
   \<and> 0 \<le> confidence (get_issue_classification lc d)
   \<and> confidence (get_issue_classification lc d) \<le> 16 / 5
   \<and> (confidence (get_issue_classification lc d) \<le> 1 \<longleftrightarrow>
        max (hw_count lc d) (max (sw_count lc d) (max (net_count lc d) (sec_count lc d))) \<le> 5)"
  using itsm_count_bounds [of lc d]
  by (simp add: confidence_eq)

theorem confidence_unclamped_witness:
  "confidence (get_issue_classification lower_table wifi_message) = 1 / 5
   \<and> confidence (get_issue_classification lower_table wifi_message) \<le> 1"
  using confidence_unclamped [of lower_table wifi_message]
  by (simp add: itsm_wifi_counts)

text \<open>Six Hardware keywords give the confidence 6/5, which is greater than 1.\<close>

theorem confidence_above_one_counterexample:
  "confidence (get_issue_classification lower_table six_hardware_message) = 6 / 5
   \<and> \<not> confidence (get_issue_classification lower_table six_hardware_message) \<le> 1"
  by (simp add: confidence_eq itsm_six_counts)


section \<open>The guard of the keyword classifier\<close>

text \<open>
  C5 (as the code has it). For every message whose stripped length is below 10, and for
  every message whose lower-cased text is one of the six greeting messages,
  \<open>classify_issue\<close> returns General; it returns a category only, no confidence. The
  classifier that reports a confidence, \<open>get_issue_classification\<close>, has no such guard;
  on \<open>hi\<close> both return General, the latter with confidence 0.
\<close>

theorem classify_issue_guard_general:
  "(length (strip m) < 10 \<or> lower lc m \<in> set greeting_messages
      \<longrightarrow> classify_issue lc m = str ''General'')
   \<and> classify_issue lc hi_message = str ''General''
   \<and> category (get_issue_classification lc hi_message) = str ''General''
   \<and> confidence (get_issue_classification lc hi_message) = 0"
  using itsm_hi_counts [of lc]
  by (simp add: classify_issue_def too_short_or_greeting_def confidence_eq category_eq
        hi_message_def strip_def str_def)

theorem classify_issue_guard_general_witness:
  "lower lower_table hello_message \<in> set greeting_messages
   \<and> classify_issue lower_table hello_message = str ''General''"
  using classify_issue_guard_general [of hello_message lower_table] hello_guard
  by simp

text \<open>
  A message of nine characters: the keyword classifier returns General, and the only
  confidence the code computes for it is 1/5, with the category Network.
\<close>

theorem short_message_confidence_counterexample:
  "length (strip wifi_message) < 10
   \<and> classify_issue lower_table wifi_message = str ''General''
   \<and> category (get_issue_classification lower_table wifi_message) = str ''Network''
   \<and> confidence (get_issue_classification lower_table wifi_message) = 1 / 5
   \<and> confidence (get_issue_classification lower_table wifi_message) \<noteq> 0"
  using wifi_guard
  by (simp add: classify_issue_def too_short_or_greeting_def confidence_eq category_eq
        itsm_wifi_counts)


section \<open>Letter case\<close>






section \<open>The session manager\<close>

text \<open>
  C9. \<open>end_session\<close> returns normally for every identifier. When the identifier is not
  in the store the store is unchanged; otherwise exactly that entry is removed and every
  other session is untouched.
\<close>

theorem end_session_total_precise:
  "\<exists>sm'. end_session sm sid = Inr sm'
     \<and> (sid \<notin> dom (sessions sm) \<longrightarrow> sm' = sm)
     \<and> sessions sm' sid = None
     \<and> (\<forall>k. k \<noteq> sid \<longrightarrow> sessions sm' k = sessions sm k)"
  by (auto simp: end_session_def dict_del_def split: option.splits)

theorem end_session_total_precise_witness:
  "(\<exists>sm'. end_session two_sessions (str ''alice'') = Inr sm'
      \<and> sessions sm' (str ''alice'') = None
      \<and> sessions sm' (str ''bob'') = sessions two_sessions (str ''bob''))
   \<and> sessions two_sessions (str ''alice'') \<noteq> None
   \<and> sessions two_sessions (str ''bob'') \<noteq> None
   \<and> end_session two_sessions (str ''carol'') = Inr two_sessions"
proof -
  have a: "str ''alice'' \<in> dom (sessions two_sessions)" "str ''bob'' \<noteq> str ''alice''"
      "str ''carol'' \<notin> dom (sessions two_sessions)" "str ''bob'' \<in> dom (sessions two_sessions)"
    by (simp_all add: two_sessions_def save_session_def SessionManager_def Session_def)
  from end_session_total_precise [of two_sessions "str ''alice''"]
       end_session_total_precise [of two_sessions "str ''carol''"] a
  show ?thesis by auto
qed


section \<open>The session memory\<close>





section \<open>The orchestrator\<close>

lemma identify_employee_keeps:
  "identify_employee w (s, mems) = ((s', mems'), r) \<Longrightarrow>
   session_id s' = session_id s \<and> issue_type s' = issue_type s \<and> greeted s' = greeted s
   \<and> messages s' = messages s"
  by (auto simp: identify_employee_def Let_def split: if_splits sum.splits option.splits)

lemma get_initial_greeting_keeps:
  "get_initial_greeting w (s, mems) = ((s', mems'), r) \<Longrightarrow>
   session_id s' = session_id s \<and> issue_type s' = issue_type s \<and> greeted s' = greeted s
   \<and> messages s' = messages s"
  by (auto simp: get_initial_greeting_def split: prod.splits sum.splits
           dest: identify_employee_keeps)

lemma get_initial_greeting_returns:
  "\<exists>st' g. get_initial_greeting w st = (st', Inr g)"
  by (auto simp: get_initial_greeting_def split: prod.splits sum.splits)

lemma assign_agent_id_keeps:
  "assign_agent_id w s = Inr s' \<Longrightarrow>
   session_id s' = session_id s \<and> issue_type s' = issue_type s \<and> greeted s' = greeted s
   \<and> messages s' = messages s"
  by (auto simp: assign_agent_id_def split: if_splits sum.splits option.splits)

lemma classify_step_keeps:
  "classify_step w q (s, mems) = ((s', mems'), t) \<Longrightarrow>
   session_id s' = session_id s \<and> greeted s' = greeted s \<and> messages s' = messages s
   \<and> issue_type s' = (if needs_classification s then Some (classify_issue_type w q)
                        else issue_type s)"
  by (auto simp: classify_step_def Let_def split: if_splits)

lemma process_query_try_keeps:
  "process_query_try lc w q (s, mems) = ((s', mems'), r) \<Longrightarrow>
   session_id s' = session_id s \<and> greeted s' = greeted s \<and> messages s' = messages s
   \<and> issue_type s' = (if needs_classification s then Some (classify_issue_type w q)
                        else issue_type s)"
  by (auto simp: process_query_try_def Let_def split: prod.splits sum.splits
           dest!: classify_step_keeps assign_agent_id_keeps)

lemma process_query_keeps:
  "process_query lc w q (s, mems) = ((s', mems'), r) \<Longrightarrow>
   session_id s' = session_id s \<and> greeted s' = greeted s \<and> messages s' = messages s
   \<and> issue_type s' = (if needs_classification s then Some (classify_issue_type w q)
                        else issue_type s)"
  by (auto simp: process_query_def split: prod.splits sum.splits
           dest!: process_query_try_keeps)

lemma specific_not_needs: "specific (issue_type s) \<longleftrightarrow> \<not> needs_classification s"
  by (auto simp: specific_def needs_classification_def)

lemma apply_hints_keeps:
  "session_id (apply_hints s e p l) = session_id s"
  "issue_type (apply_hints s e p l) = issue_type s"
  "greeted (apply_hints s e p l) = greeted s"
  "messages (apply_hints s e p l) = messages s"
  by (simp_all add: apply_hints_def Let_def)

lemma fetched_id: "wf_sessions orch \<Longrightarrow> session_id (fetched w orch sid) = sid"
  by (auto simp: fetched_def get_session_def wf_sessions_def Session_def split: option.splits)

lemma get_session_sessions:
  "get_session u t sm sid = (s, sm') \<Longrightarrow> sessions sm' = (sessions sm)(sid \<mapsto> s)"
  by (auto simp: get_session_def split: option.splits)

lemma needs_classification_messages [simp]:
  "needs_classification (s\<lparr>messages := x\<rparr>) = needs_classification s"
  by (simp add: needs_classification_def)

lemma process_message_try_step:
  assumes wf: "wf_sessions orch"
    and run: "process_message_try lc w m sid e p l orch = (orch', r)"
  shows "\<exists>s'. sessions (session_manager orch') = (sessions (session_manager orch))(sid \<mapsto> s')
           \<and> session_id s' = sid
           \<and> (if greeting_due lc (apply_hints (fetched w orch sid) e p l) m
               then greeted s' = Some True
                    \<and> issue_type s' = issue_type (fetched w orch sid)
               else greeted s' = greeted (fetched w orch sid)
                    \<and> issue_type s' =
                        (if needs_classification (fetched w orch sid)
                         then Some (classify_issue_type w m)
                         else issue_type (fetched w orch sid)))"
proof -
  obtain s0 sm where gs: "get_session (uuid4 w) (now w) (session_manager orch) sid = (s0, sm)"
    by (cases "get_session (uuid4 w) (now w) (session_manager orch) sid")
  then have f: "fetched w orch sid = s0"
    by (simp add: fetched_def)
  have sm: "sessions sm = (sessions (session_manager orch))(sid \<mapsto> s0)"
    using gs by (rule get_session_sessions)
  have id0: "session_id s0 = sid"
    using fetched_id [OF wf, of w sid] f by simp
  define s1 where "s1 = apply_hints s0 e p l"
  have s1: "session_id s1 = sid" "issue_type s1 = issue_type s0" "greeted s1 = greeted s0"
    by (simp_all add: s1_def apply_hints_keeps id0)
  have nc: "needs_classification s1 = needs_classification s0"
    by (simp add: needs_classification_def s1)
  show ?thesis
  proof (cases "greeting_due lc s1 m")
    case True
    obtain s2 mems g where gi: "get_initial_greeting w (s1, session_memories orch) = ((s2, mems), Inr g)"
      using get_initial_greeting_returns [of w "(s1, session_memories orch)"] by auto
    from get_initial_greeting_keeps [OF gi]
    have k: "session_id s2 = sid" "issue_type s2 = issue_type s0" "greeted s2 = greeted s0"
      by (simp_all add: s1)
    from run gs True gi show ?thesis
      by (auto simp: process_message_try_def Let_def s1_def [symmetric] f save_session_def
            put_session_def sm k)
  next
    case False
    obtain s2 mems r' where pq:
      "process_query lc w m (s1\<lparr>messages := messages s1 @ [(str ''user'', m)]\<rparr>, session_memories orch)
         = ((s2, mems), r')"
      by (metis prod.exhaust)
    from process_query_keeps [OF pq]
    have k: "session_id s2 = sid" "greeted s2 = greeted s0"
      "issue_type s2 = (if needs_classification s0 then Some (classify_issue_type w m)
                        else issue_type s0)"
      by (simp_all add: s1 nc)
    from run gs False pq show ?thesis
      by (cases r') (auto simp: process_message_try_def Let_def s1_def [symmetric] f
            save_session_def put_session_def sm k)
  qed
qed

lemma process_message_step:
  assumes wf: "wf_sessions orch"
    and run: "process_message lc w m sid e p l orch = (orch', r)"
  shows "\<exists>s'. sessions (session_manager orch') = (sessions (session_manager orch))(sid \<mapsto> s')
           \<and> session_id s' = sid
           \<and> (if greeting_due lc (apply_hints (fetched w orch sid) e p l) m
               then greeted s' = Some True
                    \<and> issue_type s' = issue_type (fetched w orch sid)
               else greeted s' = greeted (fetched w orch sid)
                    \<and> issue_type s' =
                        (if needs_classification (fetched w orch sid)
                         then Some (classify_issue_type w m)
                         else issue_type (fetched w orch sid)))"
proof -
  obtain o2 r2 where t: "process_message_try lc w m sid e p l orch = (o2, r2)"
    by (cases "process_message_try lc w m sid e p l orch")
  with run have "o2 = orch'"
    by (cases r2) (simp_all add: process_message_def)
  with process_message_try_step [OF wf t] show ?thesis by simp
qed

lemma process_message_wf:
  assumes "wf_sessions orch" "process_message lc w m sid e p l orch = (orch', r)"
  shows "wf_sessions orch'"
proof -
  from process_message_step [OF assms] obtain s' where
    "sessions (session_manager orch') = (sessions (session_manager orch))(sid \<mapsto> s')"
    "session_id s' = sid" by blast
  with assms(1) show ?thesis
    by (auto simp: wf_sessions_def)
qed

lemma process_call_step:
  assumes wf: "wf_sessions orch"
  shows "\<exists>s'. sessions (session_manager (fst (process_call lc c orch)))
                 = (sessions (session_manager orch))(call_session_id c \<mapsto> s')
           \<and> session_id s' = call_session_id c
           \<and> (if takes_greeting_path lc c orch
               then greeted s' = Some True
                    \<and> issue_type s' = issue_type (fetched (call_world c) orch (call_session_id c))
               else greeted s' = greeted (fetched (call_world c) orch (call_session_id c))
                    \<and> issue_type s' =
                        (if needs_classification (fetched (call_world c) orch (call_session_id c))
                         then Some (classify_issue_type (call_world c) (call_message c))
                         else issue_type (fetched (call_world c) orch (call_session_id c))))"
  using process_message_step [OF wf, of lc "call_world c" "call_message c" "call_session_id c"
      "call_email c" "call_phone c" "call_language c"
      "fst (process_call lc c orch)" "snd (process_call lc c orch)"]
  by (simp add: process_call_def takes_greeting_path_def)

lemma process_call_wf: "wf_sessions orch \<Longrightarrow> wf_sessions (fst (process_call lc c orch))"
  using process_message_wf [of orch lc "call_world c" "call_message c" "call_session_id c"
      "call_email c" "call_phone c" "call_language c"
      "fst (process_call lc c orch)" "snd (process_call lc c orch)"]
  by (simp add: process_call_def)

lemma run_wf: "wf_sessions orch \<Longrightarrow> wf_sessions (run lc cs orch)"
  by (induction cs arbitrary: orch) (simp_all add: process_call_wf)

lemma fresh_wf: "wf_sessions MEAgentOrchestrator"
  by (simp add: wf_sessions_def MEAgentOrchestrator_def SessionManager_def)

lemma run_append: "run lc (xs @ ys) orch = run lc ys (run lc xs orch)"
  by (induction xs arbitrary: orch) simp_all

lemma fetched_stored:
  "sessions (session_manager orch) sid = Some s \<Longrightarrow> fetched w orch sid = s"
  by (simp add: fetched_def get_session_def)

lemma fetched_fresh:
  "sessions (session_manager orch) sid = None \<Longrightarrow>
   greeted (fetched w orch sid) = None \<and> issue_type (fetched w orch sid) = None"
  by (simp add: fetched_def get_session_def Session_def)








lemma issue_type_step:
  assumes wf: "wf_sessions orch" and t: "specific (issue_type_of orch sid)"
  shows "issue_type_of (fst (process_call lc c orch)) sid = issue_type_of orch sid"
proof (cases "call_session_id c = sid")
  case True
  from t obtain s where s: "sessions (session_manager orch) sid = Some s" "specific (issue_type s)"
    by (cases "sessions (session_manager orch) sid")
       (auto simp: issue_type_of_def specific_def truthy_def)
  from process_call_step [OF wf, of lc c] True s
  show ?thesis
    by (auto simp: issue_type_of_def fetched_stored specific_not_needs split: if_splits)
next
  case False
  with process_call_step [OF wf, of lc c] show ?thesis
    by (auto simp: issue_type_of_def)
qed

lemma issue_type_run:
  "wf_sessions orch \<Longrightarrow> specific (issue_type_of orch sid) \<Longrightarrow>
   issue_type_of (run lc cs orch) sid = issue_type_of orch sid"
  by (induction cs arbitrary: orch) (simp_all add: issue_type_step process_call_wf)

lemma ao_process_query_keeps:
  "truthy (issue_type s) \<Longrightarrow>
   map_option issue_type (fst (ao_process_query lc w q (Some s))) = Some (issue_type s)"
  by (simp add: ao_process_query_def Let_def split: sum.splits)

text \<open>
  C1. Sticky classification. When the issue type of a session is a specific category
  (set, and not General), \<open>process_query\<close> of either orchestrator leaves it as it is,
  whatever the message and whatever the classifier would answer, and so does every later
  sequence of \<open>process_message\<close> calls, on this or any other session, from any state the
  orchestrator can reach. While the issue type is unset or General, \<open>process_query\<close> of
  the main orchestrator classifies again and stores the result. (The orchestrator of
  \<open>agent/orchestrator.py\<close> keeps every issue type that is set, General too.)
\<close>

theorem sticky_classification:
  "(specific (issue_type s) \<longrightarrow>
      issue_type (fst (fst (process_query lc w q (s, mems)))) = issue_type s)
   \<and> (needs_classification s \<longrightarrow>
      issue_type (fst (fst (process_query lc w q (s, mems)))) = Some (classify_issue_type w q))
   \<and> (truthy (issue_type s) \<longrightarrow>
      map_option issue_type (fst (ao_process_query lc w q (Some s))) = Some (issue_type s))
   \<and> (specific (issue_type_of (run lc pre MEAgentOrchestrator) sid) \<longrightarrow>
      issue_type_of (run lc cs (run lc pre MEAgentOrchestrator)) sid
        = issue_type_of (run lc pre MEAgentOrchestrator) sid)"
proof -
  obtain s' mems' r where pq: "process_query lc w q (s, mems) = ((s', mems'), r)"
    by (metis prod.exhaust)
  from process_query_keeps [OF pq] pq
  have "issue_type (fst (fst (process_query lc w q (s, mems))))
          = (if needs_classification s then Some (classify_issue_type w q) else issue_type s)"
    by simp
  moreover have "wf_sessions (run lc pre MEAgentOrchestrator)"
    by (rule run_wf [OF fresh_wf])
  ultimately show ?thesis
    using ao_process_query_keeps [of s lc w q]
    by (simp add: specific_not_needs issue_type_run)
qed



section \<open>Replies\<close>

lemma fallback_greeting_nonempty: "fallback_greeting so = Inr g \<Longrightarrow> g \<noteq> []"
  by (auto simp: fallback_greeting_def split: if_splits option.splits sum.splits)

lemma generate_fallback_response_nonempty:
  "generate_fallback_response lc m so t e = Inr r \<Longrightarrow> r \<noteq> []"
  by (auto simp: generate_fallback_response_def split: sum.splits
           dest: fallback_greeting_nonempty)

lemma time_greeting_nonempty: "time_greeting h \<noteq> []"
  by (simp add: time_greeting_def)

lemma generate_initial_greeting_nonempty:
  "generate_initial_greeting h s = Inr r \<Longrightarrow> r \<noteq> []"
  by (auto simp: generate_initial_greeting_def Let_def time_greeting_nonempty
           split: if_splits sum.splits)

lemma conversation_process_nonempty:
  "replies_nonempty w \<Longrightarrow> conversation_process w info \<noteq> []"
  by (auto simp: conversation_process_def replies_nonempty_def apology_try_again_def
           split: sum.splits)

lemma greeting_for_nonempty:
  "replies_nonempty w \<Longrightarrow> greeting_for w s = Inr g \<Longrightarrow> g \<noteq> []"
  by (auto simp: greeting_for_def Let_def conversation_process_nonempty
           split: if_splits sum.splits dest: generate_initial_greeting_nonempty)

lemma get_initial_greeting_nonempty:
  "replies_nonempty w \<Longrightarrow> get_initial_greeting w st = (st', Inr g) \<Longrightarrow> g \<noteq> []"
  by (auto simp: get_initial_greeting_def simple_greeting_def
           split: prod.splits sum.splits dest: greeting_for_nonempty)

lemma agent_process_nonempty:
  "replies_nonempty w \<Longrightarrow> agent_process lc w a q so = Inr r \<Longrightarrow> r \<noteq> []"
  by (auto simp: agent_process_def replies_nonempty_def
           split: sum.splits dest: generate_fallback_response_nonempty)

lemma process_query_try_nonempty:
  "replies_nonempty w \<Longrightarrow> process_query_try lc w q st = (st', Inr r) \<Longrightarrow> r \<noteq> []"
  by (auto simp: process_query_try_def Let_def
           split: prod.splits sum.splits dest: agent_process_nonempty)

lemma process_query_nonempty:
  "replies_nonempty w \<Longrightarrow> process_query lc w q st = (st', Inr r) \<Longrightarrow> r \<noteq> []"
  by (auto simp: process_query_def
           split: prod.splits sum.splits
           dest: process_query_try_nonempty generate_fallback_response_nonempty)

lemma process_message_try_nonempty:
  "replies_nonempty w \<Longrightarrow> process_message_try lc w m sid e p l orch = (orch', Inr r) \<Longrightarrow> r \<noteq> []"
  by (auto simp: process_message_try_def Let_def
           split: prod.splits sum.splits if_splits
           dest: process_query_nonempty get_initial_greeting_nonempty)

lemma process_message_returns:
  "\<exists>orch' reply. process_message lc w m sid e p l orch = (orch', Inr reply)"
  by (auto simp: process_message_def split: prod.splits sum.splits)

lemma process_message_nonempty:
  "replies_nonempty w \<Longrightarrow> process_message lc w m sid e p l orch = (orch', Inr r) \<Longrightarrow> r \<noteq> []"
  by (auto simp: process_message_def technical_difficulties_def
           split: prod.splits sum.splits dest: process_message_try_nonempty)

text \<open>
  C2 (as the code has it). \<open>process_message\<close> and \<open>get_initial_greeting\<close> return a string
  for every input, every state and every behaviour of the collaborators; no exception
  leaves them. The string is not empty whenever the replies of the language model that
  are handed through are not empty, in particular whenever the collaborators fail.
\<close>

theorem total_string_result:
  "(\<exists>reply. snd (process_message lc w m sid e p l orch) = Inr reply
       \<and> (replies_nonempty w \<longrightarrow> reply \<noteq> []))
   \<and> (\<exists>greeting. snd (get_initial_greeting w st) = Inr greeting
       \<and> (replies_nonempty w \<longrightarrow> greeting \<noteq> []))"
proof -
  obtain orch' reply where pm: "process_message lc w m sid e p l orch = (orch', Inr reply)"
    using process_message_returns by blast
  obtain st' g where gi: "get_initial_greeting w st = (st', Inr g)"
    using get_initial_greeting_returns by blast
  show ?thesis
    using pm gi process_message_nonempty [OF _ pm] get_initial_greeting_nonempty [OF _ gi]
    by auto
qed


section \<open>Sample runs\<close>

lemma classify_samples:
  "classify_issue_type quiet_world q = str ''Hardware''"
  "classify_issue_type password_world q = str ''Password''"
  by (simp_all add: classify_issue_type_def classify_issue_detailed_def quiet_world_def
        password_world_def str_def strip_def isspace_def Let_def)

lemma laptop_call_no_greeting:
  "\<not> any_in greeting_phrases (lower lc (call_message laptop_call))"
  "\<not> any_in greeting_phrases (lower lc (call_message password_call))"
  by (simp_all add: laptop_call_def password_call_def call_of_def any_in_def
        greeting_phrases_def str_def lower_def ascii_lower_def)


lemma call_ids:
  "call_session_id hello_call = s1" "call_session_id hi_again_call = s1"
  "call_session_id laptop_call = s1" "call_session_id password_call = s1"
  "call_world laptop_call = quiet_world" "call_world password_call = password_world"
  by (simp_all add: hello_call_def hi_again_call_def laptop_call_def password_call_def
        call_of_def)

lemma fresh_nothing:
  "\<not> greeted_in MEAgentOrchestrator sid" "issue_type_of MEAgentOrchestrator sid = None"
  "sessions (session_manager MEAgentOrchestrator) sid = None"
  by (simp_all add: greeted_in_def issue_type_of_def MEAgentOrchestrator_def SessionManager_def)

lemma laptop_call_issue_type:
  "issue_type_of (run lc [laptop_call] MEAgentOrchestrator) s1 = Some (str ''Hardware'')"
proof -
  have np: "\<not> takes_greeting_path lc laptop_call MEAgentOrchestrator"
    using laptop_call_no_greeting(1) [of lc]
    by (simp add: takes_greeting_path_def greeting_due_def)
  have nc: "needs_classification (fetched quiet_world MEAgentOrchestrator s1)"
    using fetched_fresh [OF fresh_nothing(3), of quiet_world s1]
    by (simp add: needs_classification_def truthy_def)
  from process_call_step [OF fresh_wf, of lc laptop_call] np nc
  show ?thesis
    by (auto simp: issue_type_of_def call_ids classify_samples)
qed

theorem sticky_classification_witness:
  "issue_type_of (run lower_table [laptop_call] MEAgentOrchestrator) s1 = Some (str ''Hardware'')
   \<and> classify_issue_type (call_world password_call) (call_message password_call) = str ''Password''
   \<and> issue_type_of (run lower_table [password_call] (run lower_table [laptop_call] MEAgentOrchestrator)) s1
        = Some (str ''Hardware'')"
  using sticky_classification [where lc = lower_table and pre = "[laptop_call]" and sid = s1
                  and cs = "[password_call]"]
        laptop_call_issue_type [of lower_table]
  by (simp add: specific_def truthy_def call_ids classify_samples del: run.simps)


theorem total_string_result_witness:
  "replies_nonempty failing_world
   \<and> (\<exists>reply. snd (process_message lower_table failing_world slow_laptop s1 None None None
                     MEAgentOrchestrator) = Inr reply \<and> reply \<noteq> [])
   \<and> (\<exists>greeting. snd (get_initial_greeting failing_world
                        (Session (str ''u'') (str ''t'') s1, Map.empty)) = Inr greeting
         \<and> greeting \<noteq> [])"
proof -
  have r: "replies_nonempty failing_world"
    by (simp add: replies_nonempty_def failing_world_def)
  with total_string_result [of lower_table failing_world slow_laptop s1 None None None
      MEAgentOrchestrator "(Session (str ''u'') (str ''t'') s1, Map.empty)"]
  show ?thesis by simp
qed

text \<open>
  When the agent's executor returns the empty string, \<open>process_message\<close> returns it.
\<close>

theorem empty_reply_counterexample:
  "snd (process_message lower_table empty_reply_world slow_laptop s1 None None None
          MEAgentOrchestrator) = Inr []"
  by (simp add: process_message_def process_message_try_def get_session_def Session_def
        MEAgentOrchestrator_def SessionManager_def apply_hints_def truthy_def greeting_due_def
        any_in_def greeting_phrases_def slow_laptop_def str_def lower_def ascii_lower_def
        process_query_def process_query_try_def classify_step_def needs_classification_def
        assign_agent_id_def agent_process_def empty_reply_world_def quiet_world_def Let_def
        split: prod.splits)

end
